theory Spec2Isabelle
  imports Complex_Main
begin

section \<open>Radioactive decay chain (decay.py)\<close>

text \<open>
  The program evaluates the two-member Bateman equations with NumPy on a time grid and
  chains three such evaluations for U-234, Th-230, Ra-226 and Rn-222.

  Floats are modelled as mathematical reals: \<open>np.exp\<close> is \<open>exp\<close>, \<open>np.log\<close> is \<open>ln\<close>,
  and the rounding of float arithmetic is not part of the model. What Python and NumPy
  decide by the kind and shape of a value is kept:
  \<^item> an operand is a scalar or a one-dimensional array, arithmetic between them
    broadcasts, and arrays of different lengths do not combine;
  \<^item> a division by zero is an outcome of its own, never the value 0;
  \<^item> a decay constant is a Python number, an int or a float. Python compares an int with
    a float by their exact values, but subtracts them after converting the int to a
    float, and that conversion rounds to 53 significant bits. The test \<open>!=\<close> and the
    divisor of the general branch can therefore disagree, and the model keeps both as
    Python computes them.
  Initial counts and grid values enter float arithmetic only and are floats.
\<close>

subsection \<open>Values and failures\<close>

datatype error = ZeroDivisionError | ValueError | OverflowError

datatype ndarray = Scalar real | Array "real list"

definition ebind :: "error + 'a \<Rightarrow> ('a \<Rightarrow> error + 'b) \<Rightarrow> error + 'b" where
  "ebind m f = (case m of Inl e \<Rightarrow> Inl e | Inr x \<Rightarrow> f x)"

text \<open>
  Binary arithmetic with NumPy's broadcasting, for scalars and one-dimensional arrays:
  a scalar combines with every element; two arrays combine element by element when their
  lengths agree, an array of length one is stretched, and any other pair of lengths
  raises \<open>ValueError\<close> (operands could not be broadcast together).
\<close>

fun broadcast :: "(real \<Rightarrow> real \<Rightarrow> real) \<Rightarrow> ndarray \<Rightarrow> ndarray \<Rightarrow> error + ndarray" where
  "broadcast f (Scalar a) (Scalar b) = Inr (Scalar (f a b))"
| "broadcast f (Scalar a) (Array ys) = Inr (Array (map (f a) ys))"
| "broadcast f (Array xs) (Scalar b) = Inr (Array (map (\<lambda>x. f x b) xs))"
| "broadcast f (Array xs) (Array ys) =
     (if length xs = length ys then Inr (Array (map2 f xs ys))
      else if length xs = 1 then Inr (Array (map (f (hd xs)) ys))
      else if length ys = 1 then Inr (Array (map (\<lambda>x. f x (hd ys)) xs))
      else Inl ValueError)"

definition np_mul :: "ndarray \<Rightarrow> ndarray \<Rightarrow> error + ndarray" where
  "np_mul = broadcast (\<lambda>a b. a * b)"

definition np_add :: "ndarray \<Rightarrow> ndarray \<Rightarrow> error + ndarray" where
  "np_add = broadcast (\<lambda>a b. a + b)"

definition np_sub :: "ndarray \<Rightarrow> ndarray \<Rightarrow> error + ndarray" where
  "np_sub = broadcast (\<lambda>a b. a - b)"

text \<open>
  A scalar on the left of \<open>*\<close> cannot fail: it scales whatever is on the right.
\<close>

fun scale :: "real \<Rightarrow> ndarray \<Rightarrow> ndarray" where
  "scale c (Scalar a) = Scalar (c * a)"
| "scale c (Array xs) = Array (map (\<lambda>x. c * x) xs)"

fun np_exp :: "ndarray \<Rightarrow> ndarray" where
  "np_exp (Scalar a) = Scalar (exp a)"
| "np_exp (Array xs) = Array (map exp xs)"

text \<open>
  Division by a scalar. A Python float divisor of zero raises \<open>ZeroDivisionError\<close>; a
  NumPy one yields inf or nan with a warning. Both are the failure \<open>ZeroDivisionError\<close>
  here, so that a division by zero is visible in the result.
\<close>

fun div_scalar :: "ndarray \<Rightarrow> real \<Rightarrow> error + ndarray" where
  "div_scalar (Scalar a) d = (if d = 0 then Inl ZeroDivisionError else Inr (Scalar (a / d)))"
| "div_scalar (Array xs) d =
     (if d = 0 then Inl ZeroDivisionError else Inr (Array (map (\<lambda>x. x / d) xs)))"

subsection \<open>Python numbers\<close>

text \<open>
  \<open>PyInt\<close> is Python's unbounded int, \<open>PyFloat\<close> its float. The constants of the module
  are NumPy float64 scalars; against each other and against arrays they behave as floats
  do, and they are \<open>PyFloat\<close> here.
\<close>

datatype number = PyInt int | PyFloat real

text \<open>The exact value of a number, which is what \<open>==\<close> and \<open>!=\<close> compare.\<close>

fun value_of :: "number \<Rightarrow> real" where
  "value_of (PyInt n) = real_of_int n"
| "value_of (PyFloat x) = x"

definition py_ne :: "number \<Rightarrow> number \<Rightarrow> bool" where
  "py_ne a b = (value_of a \<noteq> value_of b)"

fun py_neg :: "number \<Rightarrow> number" where
  "py_neg (PyInt n) = PyInt (- n)"
| "py_neg (PyFloat x) = PyFloat (- x)"

text \<open>
  The number of binary digits of a natural number, and the conversion of an int to a
  float: the 53 leading bits are kept, the rest is rounded to nearest with ties to the
  even neighbour, and a result of \<open>2 ^ 1024\<close> or more raises \<open>OverflowError\<close>.
\<close>

fun bit_length :: "nat \<Rightarrow> nat" where
  "bit_length n = (if n = 0 then 0 else Suc (bit_length (n div 2)))"

declare bit_length.simps [simp del]

definition round_to_float :: "int \<Rightarrow> error + real" where
  "round_to_float n =
     (let m = nat \<bar>n\<bar>;
          s = bit_length m - 53;
          q = m div 2 ^ s;
          r = m mod 2 ^ s;
          q' = (if 2 ^ s < 2 * r \<or> (2 * r = 2 ^ s \<and> odd q) then q + 1 else q);
          v = q' * 2 ^ s
      in if 2 ^ 1024 \<le> v then Inl OverflowError
         else Inr (if n < 0 then - real v else real v))"

fun as_float :: "number \<Rightarrow> error + real" where
  "as_float (PyInt n) = round_to_float n"
| "as_float (PyFloat x) = Inr x"

text \<open>
  Subtraction: two ints subtract exactly; as soon as one operand is a float, both are
  floats first.
\<close>

fun py_sub :: "number \<Rightarrow> number \<Rightarrow> error + number" where
  "py_sub (PyInt a) (PyInt b) = Inr (PyInt (a - b))"
| "py_sub a b = ebind (as_float a) (\<lambda>x. ebind (as_float b) (\<lambda>y. Inr (PyFloat (x - y))))"

text \<open>A number times a float scalar or array, and a float scalar or array over a number.\<close>

definition num_mul :: "number \<Rightarrow> ndarray \<Rightarrow> error + ndarray" where
  "num_mul c v = ebind (as_float c) (\<lambda>x. Inr (scale x v))"

definition num_div :: "ndarray \<Rightarrow> number \<Rightarrow> error + ndarray" where
  "num_div v d = ebind (as_float d) (\<lambda>x. div_scalar v x)"

subsection \<open>The two-member Bateman evaluation\<close>

text \<open>
  \<open>calculate_nuclei_population(t, lambda_parent, lambda_daughter, N0_parent, N0_daughter)\<close>:
  the parent population is \<open>N0_parent * np.exp(-lambda_parent * t)\<close>; the daughter
  population is the general Bateman form when the two constants differ and the special
  form otherwise. The operations are in the order in which Python evaluates them.
\<close>

definition calculate_nuclei_population ::
  "ndarray \<Rightarrow> number \<Rightarrow> number \<Rightarrow> ndarray \<Rightarrow> real \<Rightarrow> error + (ndarray \<times> ndarray)" where
  "calculate_nuclei_population t lambda_parent lambda_daughter N0_parent N0_daughter =
     ebind (num_mul (py_neg lambda_parent) t) (\<lambda>a.
     ebind (np_mul N0_parent (np_exp a)) (\<lambda>N_parent.
     ebind
       (if py_ne lambda_parent lambda_daughter then
          ebind (num_mul lambda_parent N0_parent) (\<lambda>c.
          ebind (py_sub lambda_daughter lambda_parent) (\<lambda>diff.
          ebind (num_div c diff) (\<lambda>q.
          ebind (num_mul (py_neg lambda_parent) t) (\<lambda>a1.
          ebind (num_mul (py_neg lambda_daughter) t) (\<lambda>a2.
          ebind (np_sub (np_exp a1) (np_exp a2)) (\<lambda>d.
          ebind (np_mul q d) (\<lambda>g.
          ebind (num_mul (py_neg lambda_daughter) t) (\<lambda>a3.
          np_add g (scale N0_daughter (np_exp a3))))))))))
        else
          ebind (num_mul lambda_parent N0_parent) (\<lambda>c.
          ebind (np_mul c t) (\<lambda>u.
          ebind (num_mul (py_neg lambda_parent) t) (\<lambda>a1.
          ebind (np_mul u (np_exp a1)) (\<lambda>g.
          ebind (num_mul (py_neg lambda_parent) t) (\<lambda>a2.
          np_add g (scale N0_daughter (np_exp a2))))))))
       (\<lambda>N_daughter. Inr (N_parent, N_daughter))))"

text \<open>\<open>calculate_activity(N, lambda_decay)\<close> returns \<open>lambda_decay * N\<close>.\<close>

definition calculate_activity :: "ndarray \<Rightarrow> real \<Rightarrow> ndarray" where
  "calculate_activity N lambda_decay = scale lambda_decay N"

subsection \<open>Module-level configuration\<close>

text \<open>Half-lives in years, the decay constants \<open>np.log(2) / T_half\<close>, the initial counts.\<close>

definition T_half_U234 :: real where "T_half_U234 = 245500"
definition T_half_Th230 :: real where "T_half_Th230 = 75380"
definition T_half_Ra226 :: real where "T_half_Ra226 = 1600"
definition T_half_Rn222 :: real where "T_half_Rn222 = 3.82 / 365"

definition lambda_U234 :: real where "lambda_U234 = ln 2 / T_half_U234"
definition lambda_Th230 :: real where "lambda_Th230 = ln 2 / T_half_Th230"
definition lambda_Ra226 :: real where "lambda_Ra226 = ln 2 / T_half_Ra226"
definition lambda_Rn222 :: real where "lambda_Rn222 = ln 2 / T_half_Rn222"

definition N0_U234 :: real where "N0_U234 = 100000"
definition N0_Th230 :: real where "N0_Th230 = 0"
definition N0_Ra226 :: real where "N0_Ra226 = 0"
definition N0_Rn222 :: real where "N0_Rn222 = 0"

text \<open>
  \<open>np.linspace(start, stop, num)\<close>: \<open>num\<close> evenly spaced samples with both end points,
  sample \<open>i\<close> being \<open>start + i * step\<close> with \<open>step = (stop - start) / (num - 1)\<close>; a single
  sample is \<open>start\<close>.
\<close>

definition linspace :: "real \<Rightarrow> real \<Rightarrow> nat \<Rightarrow> real list" where
  "linspace start stop num =
     (if num = 1 then [start]
      else map (\<lambda>i. start + real i * ((stop - start) / real (num - 1))) [0..<num])"

text \<open>The time grid \<open>t = np.linspace(0, 500000, 10000)\<close> of the module.\<close>

definition time_grid :: ndarray where
  "time_grid = Array (linspace 0 500000 10000)"

subsection \<open>The chain of three links\<close>

text \<open>
  The module calls \<open>calculate_nuclei_population\<close> three times; the second and third call
  receive the daughter array of the call before as their \<open>N0_parent\<close>. The six arrays keep
  the names the module gives them.
\<close>

record chain =
  N_U234 :: ndarray
  N_Th230 :: ndarray
  N_Th230_from_U :: ndarray
  N_Ra226 :: ndarray
  N_Ra226_from_Th :: ndarray
  N_Rn222 :: ndarray

definition decay_chain ::
  "ndarray \<Rightarrow> number \<Rightarrow> number \<Rightarrow> number \<Rightarrow> number \<Rightarrow> real \<Rightarrow> real \<Rightarrow> real \<Rightarrow> real \<Rightarrow> error + chain" where
  "decay_chain t l_U234 l_Th230 l_Ra226 l_Rn222 n_U234 n_Th230 n_Ra226 n_Rn222 =
     ebind (calculate_nuclei_population t l_U234 l_Th230 (Scalar n_U234) n_Th230) (\<lambda>(p1, d1).
     ebind (calculate_nuclei_population t l_Th230 l_Ra226 d1 n_Ra226) (\<lambda>(p2, d2).
     ebind (calculate_nuclei_population t l_Ra226 l_Rn222 d2 n_Rn222) (\<lambda>(p3, d3).
     Inr \<lparr> N_U234 = p1, N_Th230 = d1, N_Th230_from_U = p2,
           N_Ra226 = d2, N_Ra226_from_Th = p3, N_Rn222 = d3 \<rparr>)))"

text \<open>The chain as the module evaluates it, on its own constants and grid.\<close>

definition module_chain :: "error + chain" where
  "module_chain =
     decay_chain time_grid (PyFloat lambda_U234) (PyFloat lambda_Th230) (PyFloat lambda_Ra226)
       (PyFloat lambda_Rn222) N0_U234 N0_Th230 N0_Ra226 N0_Rn222"

subsection \<open>Secular equilibrium\<close>

text \<open>
  The module prints \<open>lambda_Th230/lambda_U234\<close>, \<open>lambda_Ra226/lambda_Th230\<close> and
  \<open>lambda_Rn222/lambda_Ra226\<close>, and computes \<open>-np.log(0.01) / lambda\<close> for the three
  parents. The two expressions are the functions below, with the decay constants as
  arguments; a zero divisor is the failure \<open>ZeroDivisionError\<close>.
\<close>

definition py_div :: "real \<Rightarrow> real \<Rightarrow> error + real" where
  "py_div a d = (if d = 0 then Inl ZeroDivisionError else Inr (a / d))"

definition equilibriumRatio :: "real \<Rightarrow> real \<Rightarrow> error + real" where
  "equilibriumRatio lambda_parent lambda_daughter = py_div lambda_daughter lambda_parent"

definition timeTo99PercentEquilibrium :: "real \<Rightarrow> error + real" where
  "timeTo99PercentEquilibrium lambda_parent = py_div (- ln 0.01) lambda_parent"

definition t_equilibrium_Th :: "error + real" where
  "t_equilibrium_Th = timeTo99PercentEquilibrium lambda_U234"

definition t_equilibrium_Ra :: "error + real" where
  "t_equilibrium_Ra = timeTo99PercentEquilibrium lambda_Th230"

definition t_equilibrium_Rn :: "error + real" where
  "t_equilibrium_Rn = timeTo99PercentEquilibrium lambda_Ra226"

section \<open>What one evaluation returns\<close>

text \<open>Float constants need no conversion.\<close>

lemma num_mul_float: "num_mul (PyFloat x) v = Inr (scale x v)"
  by (simp add: num_mul_def ebind_def)

lemma num_div_float: "num_div v (PyFloat x) = div_scalar v x"
  by (simp add: num_div_def ebind_def)

lemma py_sub_float: "py_sub (PyFloat a) (PyFloat b) = Inr (PyFloat (a - b))"
  by (simp add: ebind_def)

text \<open>
  With float constants and a scalar \<open>N0_parent\<close> every operation succeeds, and both
  result arrays are the closed forms applied to each grid value.
\<close>

lemma population_of_scalar:
  "calculate_nuclei_population (Array ts) (PyFloat lp) (PyFloat ld) (Scalar n) nd =
     Inr (Array (map (\<lambda>x. n * exp (- lp * x)) ts),
          Array (map (\<lambda>x. if lp \<noteq> ld
             then (lp * n / (ld - lp)) * (exp (- lp * x) - exp (- ld * x)) + nd * exp (- ld * x)
             else lp * n * x * exp (- lp * x) + nd * exp (- lp * x)) ts))"
  by (simp add: calculate_nuclei_population_def num_mul_float num_div_float py_sub_float
        py_ne_def ebind_def np_mul_def np_sub_def np_add_def
        zip_map_map comp_def zip_same_conv_map)

text \<open>
  With an array \<open>N0_parent\<close> as long as the grid, element \<open>i\<close> of \<open>N0_parent\<close> meets
  element \<open>i\<close> of the grid.
\<close>

lemma population_of_array:
  assumes "length ns = length ts"
  shows "calculate_nuclei_population (Array ts) (PyFloat lp) (PyFloat ld) (Array ns) nd =
     Inr (Array (map2 (\<lambda>n x. n * exp (- lp * x)) ns ts),
          Array (map2 (\<lambda>n x. if lp \<noteq> ld
             then (lp * n / (ld - lp)) * (exp (- lp * x) - exp (- ld * x)) + nd * exp (- ld * x)
             else lp * n * x * exp (- lp * x) + nd * exp (- lp * x)) ns ts))"
  using assms
  apply (simp add: calculate_nuclei_population_def num_mul_float num_div_float py_sub_float
        py_ne_def ebind_def np_mul_def np_sub_def np_add_def
        zip_map_map comp_def zip_same_conv_map)
  apply (auto intro!: nth_equalityI)
  done

text \<open>
  When both constants are floats, the only failure of an evaluation is a shape mismatch:
  two floats that differ have a difference other than zero, so the test of the branch
  protects the division.
\<close>

lemma broadcast_error: "broadcast f a b = Inl e \<Longrightarrow> e = ValueError"
  by (cases a; cases b) (simp_all split: if_splits)

lemma div_scalar_error: "div_scalar a d = Inl e \<Longrightarrow> d = 0"
  by (cases a) (simp_all split: if_splits)

lemma float_population_error:
  assumes "calculate_nuclei_population t (PyFloat lp) (PyFloat ld) N0 nd = Inl e"
  shows "e = ValueError"
proof (cases "lp = ld")
  case True
  with assms show ?thesis
    by (auto simp: calculate_nuclei_population_def num_mul_float py_ne_def ebind_def
          np_mul_def np_add_def split: sum.splits dest: broadcast_error)
next
  case False
  with assms show ?thesis
    by (auto simp: calculate_nuclei_population_def num_mul_float num_div_float py_sub_float
          py_ne_def ebind_def np_mul_def np_add_def np_sub_def
          split: sum.splits dest: broadcast_error div_scalar_error)
qed

lemma float_constants_no_zero_division:
  "calculate_nuclei_population t (PyFloat lp) (PyFloat ld) N0 nd \<noteq> Inl ZeroDivisionError"
  using float_population_error by fastforce

text \<open>Signs of the closed forms for non-negative counts, positive constants and times.\<close>

lemma bateman_term_nonneg:
  fixes lp ld n x :: real
  assumes "0 \<le> n" "0 < lp" "0 < ld" "lp \<noteq> ld" "0 \<le> x"
  shows "0 \<le> (lp * n / (ld - lp)) * (exp (- lp * x) - exp (- ld * x))"
proof (cases "lp < ld")
  case True
  have "- ld * x \<le> - lp * x" using True assms(5) by (simp add: mult_right_mono)
  then have "0 \<le> exp (- lp * x) - exp (- ld * x)" by simp
  moreover have "0 \<le> lp * n / (ld - lp)" using True assms(1,2) by simp
  ultimately show ?thesis by (rule mult_nonneg_nonneg [rotated])
next
  case False
  then have lt: "ld < lp" using assms(4) by simp
  have "- lp * x \<le> - ld * x" using lt assms(5) by (simp add: mult_right_mono)
  then have "exp (- lp * x) - exp (- ld * x) \<le> 0" by simp
  moreover have "lp * n / (ld - lp) \<le> 0" using lt assms(1,2) by (simp add: divide_nonneg_neg)
  ultimately show ?thesis by (rule mult_nonpos_nonpos [rotated])
qed

lemma daughter_value_nonneg:
  fixes lp ld n nd x :: real
  assumes "0 \<le> n" "0 \<le> nd" "0 < lp" "0 < ld" "0 \<le> x"
  shows "0 \<le> (if lp \<noteq> ld
             then (lp * n / (ld - lp)) * (exp (- lp * x) - exp (- ld * x)) + nd * exp (- ld * x)
             else lp * n * x * exp (- lp * x) + nd * exp (- lp * x))"
proof (cases "lp = ld")
  case True
  then show ?thesis using assms by simp
next
  case False
  have "0 \<le> nd * exp (- ld * x)" using assms(2) by simp
  with bateman_term_nonneg [OF assms(1,3,4) False assms(5)] False show ?thesis by simp
qed

text \<open>
  An int constant is converted where it meets a float. \<open>2 ^ 53 + 1\<close> has 54 bits and lies
  half way between the floats \<open>2 ^ 53\<close> and \<open>2 ^ 53 + 2\<close>; the tie goes to \<open>2 ^ 53\<close>.
\<close>

lemma bit_length_example: "bit_length 9007199254740993 = 54"
  by (simp add: bit_length.simps)

lemma round_to_float_example:
  "round_to_float 9007199254740993 = Inr 9007199254740992"
  "round_to_float (- 9007199254740993) = Inr (- 9007199254740992)"
  by (simp_all add: round_to_float_def Let_def bit_length_example)

section \<open>What the chain returns\<close>

text \<open>
  Every link returns: the first has a scalar \<open>N0_parent\<close>, the other two an array as long
  as the grid. The arrays of the record are the results of the three calls.
\<close>

lemma decay_chain_links:
  "\<exists>p1 d1 p2 d2 p3 d3.
     calculate_nuclei_population (Array ts) (PyFloat l1) (PyFloat l2) (Scalar n1) n2
       = Inr (Array p1, Array d1) \<and>
     calculate_nuclei_population (Array ts) (PyFloat l2) (PyFloat l3) (Array d1) n3
       = Inr (Array p2, Array d2) \<and>
     calculate_nuclei_population (Array ts) (PyFloat l3) (PyFloat l4) (Array d2) n4
       = Inr (Array p3, Array d3) \<and>
     length d1 = length ts \<and> length d2 = length ts \<and>
     decay_chain (Array ts) (PyFloat l1) (PyFloat l2) (PyFloat l3) (PyFloat l4) n1 n2 n3 n4 =
       Inr \<lparr> N_U234 = Array p1, N_Th230 = Array d1, N_Th230_from_U = Array p2,
             N_Ra226 = Array d2, N_Ra226_from_Th = Array p3, N_Rn222 = Array d3 \<rparr>"
  by (simp add: decay_chain_def ebind_def population_of_scalar population_of_array)

lemma daughter_of_scalar_nth:
  assumes "calculate_nuclei_population (Array ts) (PyFloat lp) (PyFloat ld) (Scalar n) nd
             = Inr (Array ps, Array ds)"
    and "i < length ts"
  shows "ds ! i = (if lp \<noteq> ld
           then (lp * n / (ld - lp)) * (exp (- lp * (ts ! i)) - exp (- ld * (ts ! i))) +
                nd * exp (- ld * (ts ! i))
           else lp * n * (ts ! i) * exp (- lp * (ts ! i)) + nd * exp (- lp * (ts ! i)))"
  using assms by (auto simp: population_of_scalar)

lemma daughter_of_array_nth:
  assumes "length ns = length ts"
    and "calculate_nuclei_population (Array ts) (PyFloat lp) (PyFloat ld) (Array ns) nd
           = Inr (Array ps, Array ds)"
    and "i < length ts"
  shows "ds ! i = (if lp \<noteq> ld
           then (lp * (ns ! i) / (ld - lp)) * (exp (- lp * (ts ! i)) - exp (- ld * (ts ! i))) +
                nd * exp (- ld * (ts ! i))
           else lp * (ns ! i) * (ts ! i) * exp (- lp * (ts ! i)) + nd * exp (- lp * (ts ! i)))"
  using assms by (auto simp: population_of_array)

text \<open>The grid of the module.\<close>

lemma linspace_length: "length (linspace a b n) = n"
  by (simp add: linspace_def)

lemma linspace_nth: "1 < n \<Longrightarrow> i < n \<Longrightarrow> linspace a b n ! i = a + real i * ((b - a) / real (n - 1))"
  by (simp add: linspace_def)

section \<open>Numbers of the sample chain\<close>

text \<open>
  \<open>ln 100 / ln 2\<close> lies between 6.64 and 6.65, by comparing powers of 2 and of 100.
\<close>

lemma ln_100_over_ln_2:
  "664 * ln 2 < 100 * ln (100::real)" "100 * ln (100::real) < 665 * ln 2"
proof -
  have "(2::real) ^ 664 < 100 ^ 100" by simp
  then have "ln ((2::real) ^ 664) < ln (100 ^ 100)" by (subst ln_less_cancel_iff) simp_all
  then have "real 664 * ln 2 < real 100 * ln (100::real)" by (simp only: ln_realpow)
  then show "664 * ln 2 < 100 * ln (100::real)" by (simp only: of_nat_numeral)
  have "(100::real) ^ 100 < 2 ^ 665" by simp
  then have "ln ((100::real) ^ 100) < ln (2 ^ 665)" by (subst ln_less_cancel_iff) simp_all
  then have "real 100 * ln (100::real) < real 665 * ln 2" by (simp only: ln_realpow)
  then show "100 * ln (100::real) < 665 * ln 2" by (simp only: of_nat_numeral)
qed

lemma scaled_bounds:
  fixes q :: real
  assumes "664 / 100 < q" "q < 665 / 100"
  shows "1630000 < 245500 * q" "245500 * q < 1633000"
  using assms by simp_all

text \<open>
  \<open>ln 100\<close> lies between 4.605 and 4.606: the Taylor polynomial of \<open>exp\<close> of degree 11
  with its remainder bounds \<open>exp 2.3025\<close> below 10 and \<open>exp 2.303\<close> above 10.
\<close>

lemma remainder_absorbed:
  fixes E S r c :: real
  assumes "E = S + r" "r \<le> E * c"
  shows "E * (1 - c) \<le> S"
proof -
  have "E * (1 - c) = E - E * c" by (simp add: algebra_simps)
  then show ?thesis using assms by linarith
qed

lemma exp_921_400: "exp (921 / 400 :: real) < 10"
proof -
  let ?x = "921 / 400 :: real"
  let ?S = "\<Sum>m<12. ?x ^ m / fact m"
  let ?c = "?x ^ 12 / fact 12"
  obtain t where t: "\<bar>t\<bar> \<le> \<bar>?x\<bar>" "exp ?x = ?S + (exp t / fact 12) * ?x ^ 12"
    using Maclaurin_exp_le [of ?x 12] by blast
  have "t \<le> ?x" using t(1) by linarith
  then have "exp t \<le> exp ?x" by simp
  then have "exp t * ?c \<le> exp ?x * ?c" by (rule mult_right_mono) simp
  moreover have "exp ?x = ?S + exp t * ?c" using t(2) by simp
  ultimately have "exp ?x * (1 - ?c) \<le> ?S" by (rule remainder_absorbed [rotated])
  also have "?S < 10 * (1 - ?c)" by (simp add: eval_nat_numeral lessThan_Suc)
  finally have "exp ?x * (1 - ?c) < 10 * (1 - ?c)" .
  moreover have "0 < 1 - ?c" by (simp add: eval_nat_numeral)
  ultimately show ?thesis by (simp only: mult_less_cancel_right_pos)
qed

lemma exp_2303_1000: "10 < exp (2303 / 1000 :: real)"
proof -
  let ?x = "2303 / 1000 :: real"
  let ?S = "\<Sum>m<12. ?x ^ m / fact m"
  obtain t where t: "exp ?x = ?S + (exp t / fact 12) * ?x ^ 12"
    using Maclaurin_exp_le [of ?x 12] by blast
  have "0 \<le> (exp t / fact 12) * ?x ^ 12" by simp
  then have "?S \<le> exp ?x" using t by linarith
  moreover have "10 < ?S" by (simp add: eval_nat_numeral lessThan_Suc)
  ultimately show ?thesis by linarith
qed

lemma ln_100_bounds: "4.605 < ln (100::real)" "ln (100::real) < 4.606"
proof -
  have "exp (4.605 :: real) = exp (921 / 400) * exp (921 / 400)"
    by (simp add: exp_add [symmetric])
  also have "\<dots> < 10 * 10"
    using exp_921_400 by (intro mult_strict_mono) simp_all
  finally have "exp (4.605 :: real) < exp (ln 100)" by simp
  then show "4.605 < ln (100::real)" by (simp only: exp_less_cancel_iff)
  have "(10::real) * 10 < exp (2303 / 1000) * exp (2303 / 1000)"
    using exp_2303_1000 by (intro mult_strict_mono) simp_all
  also have "\<dots> = exp (4.606 :: real)" by (simp add: exp_add [symmetric])
  finally have "exp (ln 100) < exp (4.606 :: real)" by simp
  then show "ln (100::real) < 4.606" by (simp only: exp_less_cancel_iff)
qed

lemma neg_ln_hundredth: "- ln (0.01::real) = ln 100"
proof -
  have "(0.01::real) = inverse 100" by simp
  then show ?thesis by (simp only: ln_inverse minus_minus)
qed

lemma ratio_of_module_constants: "lambda_Th230 / lambda_U234 = 245500 / 75380"
  by (simp add: lambda_U234_def lambda_Th230_def T_half_U234_def T_half_Th230_def)

section \<open>Claims\<close>

text \<open>
  Where a claim is about the values of the series, the decay constants are floats, as the
  constants of the module are.
\<close>

text \<open>
  C1. When the two decay constants differ, the daughter series holds, at every grid
  value \<open>t\<close>, the two-member Bateman closed form
  \<open>(\<lambda>p N0p / (\<lambda>d - \<lambda>p)) (exp (- \<lambda>p t) - exp (- \<lambda>d t)) + N0d exp (- \<lambda>d t)\<close>,
  for all initial counts; the call returns, it does not fail.
\<close>

theorem daughter_general_form:
  assumes "lambda_parent \<noteq> lambda_daughter"
  shows "\<exists>ps ds.
     calculate_nuclei_population (Array ts) (PyFloat lambda_parent) (PyFloat lambda_daughter) (Scalar N0_parent) N0_daughter
       = Inr (Array ps, Array ds) \<and>
     length ds = length ts \<and>
     (\<forall>i < length ts. ds ! i =
        (lambda_parent * N0_parent / (lambda_daughter - lambda_parent)) *
          (exp (- lambda_parent * (ts ! i)) - exp (- lambda_daughter * (ts ! i))) +
        N0_daughter * exp (- lambda_daughter * (ts ! i)))"
  using assms by (simp add: population_of_scalar)

theorem daughter_general_form_witness:
  "(1::real) \<noteq> 2 \<and> (\<exists>ps ds.
     calculate_nuclei_population (Array [0, 1]) (PyFloat 1) (PyFloat 2) (Scalar 100) 5 = Inr (Array ps, Array ds) \<and>
     length ds = 2 \<and> ds ! 0 = 5 \<and>
     ds ! 1 = 100 * (exp (- 1) - exp (- 2)) + 5 * exp (- 2))"
proof -
  have h: "(1::real) \<noteq> 2" by simp
  obtain ps ds where r:
    "calculate_nuclei_population (Array [0, 1]) (PyFloat 1) (PyFloat 2) (Scalar 100) 5 = Inr (Array ps, Array ds)"
    "length ds = length [0, 1 :: real]"
    "\<forall>i < length [0, 1 :: real]. ds ! i =
        (1 * 100 / (2 - 1)) * (exp (- 1 * ([0, 1] ! i)) - exp (- 2 * ([0, 1] ! i))) +
        5 * exp (- 2 * ([0, 1] ! i))"
    using daughter_general_form [OF h, of "[0, 1]" 100 5] by blast
  have "ds ! 0 = 5" using r(3) [THEN spec, of 0] by simp
  moreover have "ds ! 1 = 100 * (exp (- 1) - exp (- 2)) + 5 * exp (- 2)"
    using r(3) [THEN spec, of 1] by simp
  ultimately show ?thesis using h r(1,2) by simp
qed

text \<open>
  C2. The parent series holds \<open>N0_parent * exp (- lambda_parent * t)\<close> at every grid value
  \<open>t\<close>, whatever the daughter's constants are; where the grid value is 0 it holds
  \<open>N0_parent\<close>.
\<close>

theorem parent_series_exponential:
  "\<exists>ps D.
     calculate_nuclei_population (Array ts) (PyFloat lambda_parent) (PyFloat lambda_daughter) (Scalar N0_parent) N0_daughter
       = Inr (Array ps, D) \<and>
     length ps = length ts \<and>
     (\<forall>i < length ts. ps ! i = N0_parent * exp (- lambda_parent * (ts ! i)) \<and>
        (ts ! i = 0 \<longrightarrow> ps ! i = N0_parent))"
  by (simp add: population_of_scalar)

theorem parent_series_exponential_witness:
  "\<exists>ps D.
     calculate_nuclei_population (Array [0, 3]) (PyFloat 2) (PyFloat 7) (Scalar 100) 5 = Inr (Array ps, D) \<and>
     length ps = 2 \<and> ps ! 0 = 100 \<and> ps ! 1 = 100 * exp (- 6)"
proof -
  obtain ps D where r:
    "calculate_nuclei_population (Array [0, 3]) (PyFloat 2) (PyFloat 7) (Scalar 100) 5 = Inr (Array ps, D)"
    "length ps = length [0, 3 :: real]"
    "\<forall>i < length [0, 3 :: real]. ps ! i = 100 * exp (- 2 * ([0, 3] ! i)) \<and>
        ([0, 3 :: real] ! i = 0 \<longrightarrow> ps ! i = 100)"
    using parent_series_exponential [of "[0, 3]" 2 7 100 5] by blast
  have "ps ! 0 = 100" using r(3) [THEN spec, of 0] by simp
  moreover have "ps ! 1 = 100 * exp (- 6)" using r(3) [THEN spec, of 1] by simp
  ultimately show ?thesis using r(1,2) by simp
qed

text \<open>
  C3. The branch is taken on \<open>lambda_parent != lambda_daughter\<close>, so that the division by
  \<open>lambda_daughter - lambda_parent\<close> is never a division by zero, for any input. The code
  misses one case. The test compares an int and a float by their exact values; the
  divisor is computed after the int has become a float. With \<open>lambda_parent\<close> the int
  \<open>2 ^ 53 + 1\<close> and \<open>lambda_daughter\<close> the float \<open>2 ^ 53\<close> the test finds them different,
  the divisor is \<open>0.0\<close>, and the evaluation ends in \<open>ZeroDivisionError\<close>.
\<close>

theorem mixed_constants_zero_division:
  "py_ne (PyInt 9007199254740993) (PyFloat 9007199254740992) \<and>
   py_sub (PyFloat 9007199254740992) (PyInt 9007199254740993) = Inr (PyFloat 0) \<and>
   calculate_nuclei_population (Array [0, 1]) (PyInt 9007199254740993) (PyFloat 9007199254740992)
     (Scalar 1) 0 = Inl ZeroDivisionError"
  by (simp add: calculate_nuclei_population_def py_ne_def num_mul_def num_div_def
        round_to_float_example ebind_def np_mul_def)

text \<open>
  C4. In the chain of three calls, the parent population that link \<open>k + 1\<close> is given is
  the daughter array that link \<open>k\<close> returned, unchanged: the second call is
  \<open>calculate_nuclei_population\<close> on the first call's daughter array, the third on the
  second call's, and in the daughter series of link \<open>k + 1\<close> the value at index \<open>i\<close> of
  link \<open>k\<close>'s daughter array stands where \<open>N0_parent\<close> stands in the Bateman form. The
  first link's daughter array is the Bateman form of the scalar initial count. All three
  calls return.
\<close>

theorem chain_feeds_daughter_forward:
  "\<exists>p1 d1 p2 d2 p3 d3.
     calculate_nuclei_population (Array ts) (PyFloat l_U234) (PyFloat l_Th230) (Scalar n_U234) n_Th230
       = Inr (Array p1, Array d1) \<and>
     calculate_nuclei_population (Array ts) (PyFloat l_Th230) (PyFloat l_Ra226) (Array d1) n_Ra226
       = Inr (Array p2, Array d2) \<and>
     calculate_nuclei_population (Array ts) (PyFloat l_Ra226) (PyFloat l_Rn222) (Array d2) n_Rn222
       = Inr (Array p3, Array d3) \<and>
     decay_chain (Array ts) (PyFloat l_U234) (PyFloat l_Th230) (PyFloat l_Ra226) (PyFloat l_Rn222)
         n_U234 n_Th230 n_Ra226 n_Rn222 =
       Inr \<lparr> N_U234 = Array p1, N_Th230 = Array d1, N_Th230_from_U = Array p2,
             N_Ra226 = Array d2, N_Ra226_from_Th = Array p3, N_Rn222 = Array d3 \<rparr> \<and>
     length d1 = length ts \<and> length d2 = length ts \<and> length d3 = length ts \<and>
     (\<forall>i < length ts.
        d1 ! i = (if l_U234 \<noteq> l_Th230
           then (l_U234 * n_U234 / (l_Th230 - l_U234)) *
                  (exp (- l_U234 * (ts ! i)) - exp (- l_Th230 * (ts ! i))) +
                n_Th230 * exp (- l_Th230 * (ts ! i))
           else l_U234 * n_U234 * (ts ! i) * exp (- l_U234 * (ts ! i)) +
                n_Th230 * exp (- l_U234 * (ts ! i))) \<and>
        d2 ! i = (if l_Th230 \<noteq> l_Ra226
           then (l_Th230 * (d1 ! i) / (l_Ra226 - l_Th230)) *
                  (exp (- l_Th230 * (ts ! i)) - exp (- l_Ra226 * (ts ! i))) +
                n_Ra226 * exp (- l_Ra226 * (ts ! i))
           else l_Th230 * (d1 ! i) * (ts ! i) * exp (- l_Th230 * (ts ! i)) +
                n_Ra226 * exp (- l_Th230 * (ts ! i))) \<and>
        d3 ! i = (if l_Ra226 \<noteq> l_Rn222
           then (l_Ra226 * (d2 ! i) / (l_Rn222 - l_Ra226)) *
                  (exp (- l_Ra226 * (ts ! i)) - exp (- l_Rn222 * (ts ! i))) +
                n_Rn222 * exp (- l_Rn222 * (ts ! i))
           else l_Ra226 * (d2 ! i) * (ts ! i) * exp (- l_Ra226 * (ts ! i)) +
                n_Rn222 * exp (- l_Ra226 * (ts ! i))))"
proof -
  obtain p1 d1 p2 d2 p3 d3 where r:
    "calculate_nuclei_population (Array ts) (PyFloat l_U234) (PyFloat l_Th230) (Scalar n_U234) n_Th230
       = Inr (Array p1, Array d1)"
    "calculate_nuclei_population (Array ts) (PyFloat l_Th230) (PyFloat l_Ra226) (Array d1) n_Ra226
       = Inr (Array p2, Array d2)"
    "calculate_nuclei_population (Array ts) (PyFloat l_Ra226) (PyFloat l_Rn222) (Array d2) n_Rn222
       = Inr (Array p3, Array d3)"
    "length d1 = length ts" "length d2 = length ts"
    "decay_chain (Array ts) (PyFloat l_U234) (PyFloat l_Th230) (PyFloat l_Ra226) (PyFloat l_Rn222)
         n_U234 n_Th230 n_Ra226 n_Rn222 =
       Inr \<lparr> N_U234 = Array p1, N_Th230 = Array d1, N_Th230_from_U = Array p2,
             N_Ra226 = Array d2, N_Ra226_from_Th = Array p3, N_Rn222 = Array d3 \<rparr>"
    using decay_chain_links [of ts l_U234 l_Th230 n_U234 n_Th230 l_Ra226 n_Ra226 l_Rn222 n_Rn222]
    by blast
  note a = daughter_of_scalar_nth [OF r(1)]
  note b = daughter_of_array_nth [OF r(4) r(2)]
  note c = daughter_of_array_nth [OF r(5) r(3)]
  have "length d3 = length ts" using r(3,5) by (auto simp: population_of_array)
  moreover have "\<forall>i < length ts.
        d1 ! i = (if l_U234 \<noteq> l_Th230
           then (l_U234 * n_U234 / (l_Th230 - l_U234)) *
                  (exp (- l_U234 * (ts ! i)) - exp (- l_Th230 * (ts ! i))) +
                n_Th230 * exp (- l_Th230 * (ts ! i))
           else l_U234 * n_U234 * (ts ! i) * exp (- l_U234 * (ts ! i)) +
                n_Th230 * exp (- l_U234 * (ts ! i))) \<and>
        d2 ! i = (if l_Th230 \<noteq> l_Ra226
           then (l_Th230 * (d1 ! i) / (l_Ra226 - l_Th230)) *
                  (exp (- l_Th230 * (ts ! i)) - exp (- l_Ra226 * (ts ! i))) +
                n_Ra226 * exp (- l_Ra226 * (ts ! i))
           else l_Th230 * (d1 ! i) * (ts ! i) * exp (- l_Th230 * (ts ! i)) +
                n_Ra226 * exp (- l_Th230 * (ts ! i))) \<and>
        d3 ! i = (if l_Ra226 \<noteq> l_Rn222
           then (l_Ra226 * (d2 ! i) / (l_Rn222 - l_Ra226)) *
                  (exp (- l_Ra226 * (ts ! i)) - exp (- l_Rn222 * (ts ! i))) +
                n_Rn222 * exp (- l_Rn222 * (ts ! i))
           else l_Ra226 * (d2 ! i) * (ts ! i) * exp (- l_Ra226 * (ts ! i)) +
                n_Rn222 * exp (- l_Ra226 * (ts ! i)))"
    using a b c by blast
  ultimately show ?thesis using r by blast
qed

theorem chain_feeds_daughter_forward_witness:
  "\<exists>p1 d1 p2 d2 p3 d3.
     module_chain =
       Inr \<lparr> N_U234 = Array p1, N_Th230 = Array d1, N_Th230_from_U = Array p2,
             N_Ra226 = Array d2, N_Ra226_from_Th = Array p3, N_Rn222 = Array d3 \<rparr> \<and>
     calculate_nuclei_population time_grid (PyFloat lambda_U234) (PyFloat lambda_Th230)
         (Scalar N0_U234) N0_Th230 = Inr (Array p1, Array d1) \<and>
     calculate_nuclei_population time_grid (PyFloat lambda_Th230) (PyFloat lambda_Ra226)
         (Array d1) N0_Ra226 = Inr (Array p2, Array d2) \<and>
     calculate_nuclei_population time_grid (PyFloat lambda_Ra226) (PyFloat lambda_Rn222)
         (Array d2) N0_Rn222 = Inr (Array p3, Array d3) \<and>
     length d1 = 10000 \<and> length d2 = 10000 \<and> length d3 = 10000 \<and>
     (1::nat) < length (linspace 0 500000 10000) \<and>
     linspace 0 500000 10000 ! 1 = 500000 / 9999 \<and>
     d2 ! 1 = (if lambda_Th230 \<noteq> lambda_Ra226
           then (lambda_Th230 * (d1 ! 1) / (lambda_Ra226 - lambda_Th230)) *
                  (exp (- lambda_Th230 * (linspace 0 500000 10000 ! 1)) -
                   exp (- lambda_Ra226 * (linspace 0 500000 10000 ! 1))) +
                N0_Ra226 * exp (- lambda_Ra226 * (linspace 0 500000 10000 ! 1))
           else lambda_Th230 * (d1 ! 1) * (linspace 0 500000 10000 ! 1) *
                  exp (- lambda_Th230 * (linspace 0 500000 10000 ! 1)) +
                N0_Ra226 * exp (- lambda_Th230 * (linspace 0 500000 10000 ! 1))) \<and>
     d3 ! 1 = (if lambda_Ra226 \<noteq> lambda_Rn222
           then (lambda_Ra226 * (d2 ! 1) / (lambda_Rn222 - lambda_Ra226)) *
                  (exp (- lambda_Ra226 * (linspace 0 500000 10000 ! 1)) -
                   exp (- lambda_Rn222 * (linspace 0 500000 10000 ! 1))) +
                N0_Rn222 * exp (- lambda_Rn222 * (linspace 0 500000 10000 ! 1))
           else lambda_Ra226 * (d2 ! 1) * (linspace 0 500000 10000 ! 1) *
                  exp (- lambda_Ra226 * (linspace 0 500000 10000 ! 1)) +
                N0_Rn222 * exp (- lambda_Ra226 * (linspace 0 500000 10000 ! 1)))"
proof -
  let ?ts = "linspace 0 500000 10000"
  have i: "(1::nat) < length ?ts" by (simp add: linspace_length)
  have n: "length ?ts = 10000" by (rule linspace_length)
  have t1: "?ts ! 1 = 500000 / 9999" by (simp add: linspace_nth)
  obtain p1 d1 p2 d2 p3 d3 where r:
    "calculate_nuclei_population (Array ?ts) (PyFloat lambda_U234) (PyFloat lambda_Th230)
         (Scalar N0_U234) N0_Th230 = Inr (Array p1, Array d1)"
    "calculate_nuclei_population (Array ?ts) (PyFloat lambda_Th230) (PyFloat lambda_Ra226)
         (Array d1) N0_Ra226 = Inr (Array p2, Array d2)"
    "calculate_nuclei_population (Array ?ts) (PyFloat lambda_Ra226) (PyFloat lambda_Rn222)
         (Array d2) N0_Rn222 = Inr (Array p3, Array d3)"
    "decay_chain (Array ?ts) (PyFloat lambda_U234) (PyFloat lambda_Th230) (PyFloat lambda_Ra226)
         (PyFloat lambda_Rn222) N0_U234 N0_Th230 N0_Ra226 N0_Rn222 =
       Inr \<lparr> N_U234 = Array p1, N_Th230 = Array d1, N_Th230_from_U = Array p2,
             N_Ra226 = Array d2, N_Ra226_from_Th = Array p3, N_Rn222 = Array d3 \<rparr>"
    "length d1 = length ?ts" "length d2 = length ?ts" "length d3 = length ?ts"
    "\<forall>i < length ?ts.
        d1 ! i = (if lambda_U234 \<noteq> lambda_Th230
           then (lambda_U234 * N0_U234 / (lambda_Th230 - lambda_U234)) *
                  (exp (- lambda_U234 * (?ts ! i)) - exp (- lambda_Th230 * (?ts ! i))) +
                N0_Th230 * exp (- lambda_Th230 * (?ts ! i))
           else lambda_U234 * N0_U234 * (?ts ! i) * exp (- lambda_U234 * (?ts ! i)) +
                N0_Th230 * exp (- lambda_U234 * (?ts ! i))) \<and>
        d2 ! i = (if lambda_Th230 \<noteq> lambda_Ra226
           then (lambda_Th230 * (d1 ! i) / (lambda_Ra226 - lambda_Th230)) *
                  (exp (- lambda_Th230 * (?ts ! i)) - exp (- lambda_Ra226 * (?ts ! i))) +
                N0_Ra226 * exp (- lambda_Ra226 * (?ts ! i))
           else lambda_Th230 * (d1 ! i) * (?ts ! i) * exp (- lambda_Th230 * (?ts ! i)) +
                N0_Ra226 * exp (- lambda_Th230 * (?ts ! i))) \<and>
        d3 ! i = (if lambda_Ra226 \<noteq> lambda_Rn222
           then (lambda_Ra226 * (d2 ! i) / (lambda_Rn222 - lambda_Ra226)) *
                  (exp (- lambda_Ra226 * (?ts ! i)) - exp (- lambda_Rn222 * (?ts ! i))) +
                N0_Rn222 * exp (- lambda_Rn222 * (?ts ! i))
           else lambda_Ra226 * (d2 ! i) * (?ts ! i) * exp (- lambda_Ra226 * (?ts ! i)) +
                N0_Rn222 * exp (- lambda_Ra226 * (?ts ! i)))"
    using chain_feeds_daughter_forward [of ?ts lambda_U234 lambda_Th230 N0_U234 N0_Th230
        lambda_Ra226 N0_Ra226 lambda_Rn222 N0_Rn222]
    by blast
  note at1 = r(8) [THEN spec, of 1, THEN mp, OF i]
  show ?thesis
    unfolding module_chain_def time_grid_def
    using r(1-4) r(5-7) [unfolded n] i t1 at1 by blast
qed

text \<open>
  C5, restated to what the code does. Neither function checks its arguments. For float
  arguments with a non-positive decay constant, a negative initial count, an empty grid
  or a grid that is not increasing, \<open>calculate_nuclei_population\<close> returns the two
  closed-form series on the grid; for a non-positive decay constant, an empty series or a
  series with a negative value, \<open>calculate_activity\<close> returns the series multiplied by the
  constant.
\<close>

theorem invalid_arguments_get_results:
  "(lambda_parent \<le> 0 \<or> lambda_daughter \<le> 0 \<or> N0_parent < 0 \<or> N0_daughter < 0 \<or>
      ts = [] \<or> \<not> sorted_wrt (<) ts \<longrightarrow>
    calculate_nuclei_population (Array ts) (PyFloat lambda_parent) (PyFloat lambda_daughter)
        (Scalar N0_parent) N0_daughter =
      Inr (Array (map (\<lambda>x. N0_parent * exp (- lambda_parent * x)) ts),
           Array (map (\<lambda>x. if lambda_parent \<noteq> lambda_daughter
              then (lambda_parent * N0_parent / (lambda_daughter - lambda_parent)) *
                     (exp (- lambda_parent * x) - exp (- lambda_daughter * x)) +
                   N0_daughter * exp (- lambda_daughter * x)
              else lambda_parent * N0_parent * x * exp (- lambda_parent * x) +
                   N0_daughter * exp (- lambda_parent * x)) ts))) \<and>
   (lambda_decay \<le> 0 \<or> ns = [] \<or> (\<exists>n \<in> set ns. n < 0) \<longrightarrow>
    calculate_activity (Array ns) lambda_decay = Array (map (\<lambda>n. lambda_decay * n) ns))"
  by (simp add: population_of_scalar calculate_activity_def)

theorem invalid_arguments_get_results_witness:
  "((- 1 :: real) \<le> 0 \<or> (- 2 :: real) \<le> 0 \<or> (- 5 :: real) < 0 \<or> (- 1 :: real) < 0 \<or>
      [3, 0 :: real] = [] \<or> \<not> sorted_wrt (<) [3, 0 :: real]) \<and>
   calculate_nuclei_population (Array [3, 0]) (PyFloat (- 1)) (PyFloat (- 2)) (Scalar (- 5)) (- 1) =
     Inr (Array [- 5 * exp 3, - 5], Array [- 5 * (exp 3 - exp 6) - exp 6, - 1]) \<and>
   ((- 3 :: real) \<le> 0 \<or> [- 1, 4 :: real] = [] \<or> (\<exists>n \<in> set [- 1, 4 :: real]. n < 0)) \<and>
   calculate_activity (Array [- 1, 4]) (- 3) = Array [3, - 12]"
  using invalid_arguments_get_results [of "- 1" "- 2" "- 5" "- 1" "[3, 0]" "- 3" "[- 1, 4]"]
  by simp

text \<open>
  C5 as stated asks for a failure on an empty grid, a negative decay constant, a negative
  initial count and a grid that is not increasing. Each of these inputs gets a result.
\<close>

theorem invalid_arguments_accepted_counterexample:
  "calculate_nuclei_population (Array []) (PyFloat 1) (PyFloat 2) (Scalar 1) 0
     = Inr (Array [], Array []) \<and>
   calculate_nuclei_population (Array [0]) (PyFloat (- 1)) (PyFloat 0) (Scalar (- 5)) 0
     = Inr (Array [- 5], Array [0]) \<and>
   \<not> isl (calculate_nuclei_population (Array [3, 0]) (PyFloat 1) (PyFloat 2) (Scalar 1) 0) \<and>
   calculate_activity (Array [1, 2]) (- 3) = Array [- 3, - 6]"
  by (simp add: population_of_scalar calculate_activity_def)

text \<open>
  C6. For non-negative initial counts and positive decay constants both series are
  non-negative at every grid value \<open>t \<ge> 0\<close>, and the daughter series holds \<open>N0_daughter\<close>
  where the grid value is 0, in the general and in the equal-constants branch.
\<close>

theorem populations_nonnegative:
  assumes "0 \<le> N0_parent" "0 \<le> N0_daughter" "0 < lambda_parent" "0 < lambda_daughter"
  shows "\<exists>ps ds.
     calculate_nuclei_population (Array ts) (PyFloat lambda_parent) (PyFloat lambda_daughter) (Scalar N0_parent) N0_daughter
       = Inr (Array ps, Array ds) \<and>
     length ps = length ts \<and> length ds = length ts \<and>
     (\<forall>i < length ts. 0 \<le> ts ! i \<longrightarrow> 0 \<le> ps ! i \<and> 0 \<le> ds ! i) \<and>
     (\<forall>i < length ts. ts ! i = 0 \<longrightarrow> ds ! i = N0_daughter)"
proof -
  let ?f = "\<lambda>x. if lambda_parent \<noteq> lambda_daughter
             then (lambda_parent * N0_parent / (lambda_daughter - lambda_parent)) *
                    (exp (- lambda_parent * x) - exp (- lambda_daughter * x)) +
                  N0_daughter * exp (- lambda_daughter * x)
             else lambda_parent * N0_parent * x * exp (- lambda_parent * x) +
                  N0_daughter * exp (- lambda_parent * x)"
  have nn: "0 \<le> ?f x" if "0 \<le> x" for x
    using daughter_value_nonneg [OF assms that] .
  have z: "?f 0 = N0_daughter" by simp
  have "calculate_nuclei_population (Array ts) (PyFloat lambda_parent) (PyFloat lambda_daughter) (Scalar N0_parent) N0_daughter
       = Inr (Array (map (\<lambda>x. N0_parent * exp (- lambda_parent * x)) ts), Array (map ?f ts))"
    by (rule population_of_scalar)
  moreover have "\<forall>i < length ts. 0 \<le> ts ! i \<longrightarrow>
       0 \<le> map (\<lambda>x. N0_parent * exp (- lambda_parent * x)) ts ! i \<and> 0 \<le> map ?f ts ! i"
    using nn assms(1) by simp
  moreover have "\<forall>i < length ts. ts ! i = 0 \<longrightarrow> map ?f ts ! i = N0_daughter"
    using z by simp
  ultimately show ?thesis by simp
qed

theorem populations_nonnegative_witness:
  "(0::real) \<le> 100 \<and> (0::real) \<le> 5 \<and> (0::real) < 1 \<and> (0::real) < 2 \<and>
   (\<exists>ps ds.
     calculate_nuclei_population (Array [0, 1]) (PyFloat 1) (PyFloat 2) (Scalar 100) 5 = Inr (Array ps, Array ds) \<and>
     length ps = 2 \<and> length ds = 2 \<and>
     0 \<le> ps ! 0 \<and> 0 \<le> ds ! 0 \<and> 0 \<le> ps ! 1 \<and> 0 \<le> ds ! 1 \<and> ds ! 0 = 5)"
proof -
  have h: "(0::real) \<le> 100" "(0::real) \<le> 5" "(0::real) < 1" "(0::real) < 2" by simp_all
  obtain ps ds where r:
    "calculate_nuclei_population (Array [0, 1]) (PyFloat 1) (PyFloat 2) (Scalar 100) 5 = Inr (Array ps, Array ds)"
    "length ps = length [0, 1 :: real]" "length ds = length [0, 1 :: real]"
    "\<forall>i < length [0, 1 :: real]. 0 \<le> [0, 1 :: real] ! i \<longrightarrow> 0 \<le> ps ! i \<and> 0 \<le> ds ! i"
    "\<forall>i < length [0, 1 :: real]. [0, 1 :: real] ! i = 0 \<longrightarrow> ds ! i = 5"
    using populations_nonnegative [OF h, of "[0, 1]"] by blast
  have "0 \<le> ps ! 0 \<and> 0 \<le> ds ! 0" using r(4) [THEN spec, of 0] by simp
  moreover have "0 \<le> ps ! 1 \<and> 0 \<le> ds ! 1" using r(4) [THEN spec, of 1] by simp
  moreover have "ds ! 0 = 5" using r(5) [THEN spec, of 0] by simp
  ultimately show ?thesis using h r(1,2,3) by simp
qed



text \<open>
  C8, restated to what the code does. For a positive parent constant the equilibrium ratio is exactly
  \<open>lambda_daughter / lambda_parent\<close>. For U-234 and Th-230 it is \<open>245500 / 75380\<close>, which
  is 3.2568 to four decimals.
\<close>

theorem equilibrium_ratio_quotient:
  "(0 < lambda_parent \<longrightarrow>
      equilibriumRatio lambda_parent lambda_daughter = Inr (lambda_daughter / lambda_parent)) \<and>
   (\<exists>r. equilibriumRatio lambda_U234 lambda_Th230 = Inr r \<and> r = 245500 / 75380 \<and>
      \<bar>r - 3.2568\<bar> < 0.00005)"
proof (intro conjI impI)
  assume "0 < lambda_parent"
  then show "equilibriumRatio lambda_parent lambda_daughter = Inr (lambda_daughter / lambda_parent)"
    by (simp add: equilibriumRatio_def py_div_def)
next
  have "lambda_U234 \<noteq> 0"
    by (simp add: lambda_U234_def T_half_U234_def)
  then have "equilibriumRatio lambda_U234 lambda_Th230 = Inr (245500 / 75380)"
    by (simp add: equilibriumRatio_def py_div_def ratio_of_module_constants)
  moreover have "\<bar>(245500 / 75380 :: real) - 3.2568\<bar> < 0.00005" by simp
  ultimately show "\<exists>r. equilibriumRatio lambda_U234 lambda_Th230 = Inr r \<and> r = 245500 / 75380 \<and>
      \<bar>r - 3.2568\<bar> < 0.00005" by blast
qed

theorem equilibrium_ratio_quotient_witness:
  "(0::real) < 2 \<and> equilibriumRatio 2 6 = Inr 3"
  using equilibrium_ratio_quotient [of 2 6] by simp

text \<open>
  C8 as stated gives the decimal 3.2562 for \<open>245500 / 75380\<close>; the ratio is more than
  0.0006 away from it.
\<close>

theorem equilibrium_ratio_decimal_counterexample:
  "equilibriumRatio lambda_U234 lambda_Th230 = Inr (245500 / 75380) \<and>
   (0.0006 :: real) < \<bar>245500 / 75380 - 3.2562\<bar>"
proof -
  have "lambda_U234 \<noteq> 0"
    by (simp add: lambda_U234_def T_half_U234_def)
  then have "equilibriumRatio lambda_U234 lambda_Th230 = Inr (245500 / 75380)"
    by (simp add: equilibriumRatio_def py_div_def ratio_of_module_constants)
  moreover have "(0.0006 :: real) < \<bar>245500 / 75380 - 3.2562\<bar>" by simp
  ultimately show ?thesis by simp
qed

text \<open>
  C9. For a positive parent constant the time to 99 percent of equilibrium is exactly
  \<open>- ln 0.01 / lambda_parent\<close>. For U-234 it is \<open>- ln 0.01 * T_half / ln 2\<close> with
  \<open>T_half = 245500\<close>, a value between 1630000 and 1633000 years; \<open>- ln 0.01\<close> is
  4.605 to three decimals.
\<close>

theorem time_to_equilibrium_value:
  "(0 < lambda_parent \<longrightarrow>
      timeTo99PercentEquilibrium lambda_parent = Inr (- ln 0.01 / lambda_parent)) \<and>
   (\<exists>r. t_equilibrium_Th = Inr r \<and> r = - ln 0.01 * T_half_U234 / ln 2 \<and>
      1630000 < r \<and> r < 1633000) \<and>
   4.605 < - ln (0.01::real) \<and> - ln (0.01::real) < 4.606"
proof (intro conjI impI)
  assume "0 < lambda_parent"
  then show "timeTo99PercentEquilibrium lambda_parent = Inr (- ln 0.01 / lambda_parent)"
    by (simp add: timeTo99PercentEquilibrium_def py_div_def)
next
  have l2: "0 < ln (2::real)" by simp
  have nz: "lambda_U234 \<noteq> 0" by (simp add: lambda_U234_def T_half_U234_def)
  have v: "- ln 0.01 / lambda_U234 = - ln 0.01 * T_half_U234 / ln 2"
    by (simp add: lambda_U234_def)
  have e: "t_equilibrium_Th = Inr (- ln 0.01 * T_half_U234 / ln 2)"
    unfolding t_equilibrium_Th_def timeTo99PercentEquilibrium_def py_div_def
    using nz v by simp
  have w: "- ln 0.01 * T_half_U234 / ln 2 = 245500 * (ln 100 / ln 2)"
    unfolding neg_ln_hundredth T_half_U234_def by simp
  have lo: "664 / 100 < ln 100 / ln (2::real)"
    using ln_100_over_ln_2(1) l2 by (simp add: field_simps)
  have hi: "ln 100 / ln (2::real) < 665 / 100"
    using ln_100_over_ln_2(2) l2 by (simp add: field_simps)
  have "1630000 < - ln 0.01 * T_half_U234 / ln 2" "- ln 0.01 * T_half_U234 / ln 2 < 1633000"
    unfolding w using scaled_bounds [OF lo hi] by blast+
  with e show "\<exists>r. t_equilibrium_Th = Inr r \<and> r = - ln 0.01 * T_half_U234 / ln 2 \<and>
      1630000 < r \<and> r < 1633000" by blast
next
  show "4.605 < - ln (0.01::real)" unfolding neg_ln_hundredth by (rule ln_100_bounds(1))
next
  show "- ln (0.01::real) < 4.606" unfolding neg_ln_hundredth by (rule ln_100_bounds(2))
qed

theorem time_to_equilibrium_value_witness:
  "(0::real) < 1 \<and> timeTo99PercentEquilibrium 1 = Inr (- ln 0.01)"
  using time_to_equilibrium_value [of 1] by simp

text \<open>
  C10. For a scalar \<open>N0_parent \<ge> 0\<close> and \<open>lambda_parent > 0\<close> the parent series does not
  increase with time: for grid values \<open>t1 \<le> t2\<close> its value at \<open>t2\<close> is at most its value
  at \<open>t1\<close>.
\<close>

theorem parent_series_nonincreasing:
  assumes "0 \<le> N0_parent" "0 < lambda_parent"
  shows "\<exists>ps D.
     calculate_nuclei_population (Array ts) (PyFloat lambda_parent) (PyFloat lambda_daughter) (Scalar N0_parent) N0_daughter
       = Inr (Array ps, D) \<and>
     length ps = length ts \<and>
     (\<forall>i < length ts. \<forall>j < length ts. ts ! i \<le> ts ! j \<longrightarrow> ps ! j \<le> ps ! i)"
  using assms by (simp add: population_of_scalar mult_left_mono)

theorem parent_series_nonincreasing_witness:
  "(0::real) \<le> 100 \<and> (0::real) < 2 \<and>
   (\<exists>ps D.
     calculate_nuclei_population (Array [0, 3]) (PyFloat 2) (PyFloat 7) (Scalar 100) 5 = Inr (Array ps, D) \<and>
     length ps = 2 \<and> ps ! 1 \<le> ps ! 0)"
proof -
  have h: "(0::real) \<le> 100" "(0::real) < 2" by simp_all
  obtain ps D where r:
    "calculate_nuclei_population (Array [0, 3]) (PyFloat 2) (PyFloat 7) (Scalar 100) 5 = Inr (Array ps, D)"
    "length ps = length [0, 3 :: real]"
    "\<forall>i < length [0, 3 :: real]. \<forall>j < length [0, 3 :: real].
        [0, 3 :: real] ! i \<le> [0, 3] ! j \<longrightarrow> ps ! j \<le> ps ! i"
    using parent_series_nonincreasing [OF h, of "[0, 3]" 7 5] by blast
  have "ps ! 1 \<le> ps ! 0" using r(3) [THEN spec, of 0, THEN mp, THEN spec, of 1] by simp
  then show ?thesis using h r(1,2) by simp
qed

end
